theory Spec2Isabelle
  imports Complex_Main "HOL-Library.AList" "HOL-Library.Char_ord"
    "HOL-Library.List_Lexorder" "HOL-Library.Product_Lexorder"
begin

section \<open>Sponsorship Manager: data model (schemas.py)\<close>

text \<open>
  Python strings are modelled as \<open>string\<close>, Python's unbounded \<open>int\<close> as \<open>int\<close>,
  \<open>Optional[t]\<close> as \<open>t option\<close>. Tier prices are Python floats; they are modelled as
  exact rationals. Every price the code computes is a multiple of 1/4 (half the audience
  size, times 1, 2 or 7/2), so the exact value and the double agree as long as the audience
  size is small enough to be converted to a double without loss.
\<close>

record ProposalInput =
  title :: string
  description :: string
  date :: "string option"
  location :: "string option"
  audience_size :: "int option"
  demographics :: "string option"
  engagement_channels :: "string list option"
  objectives :: "string list option"
  industries_target :: "string list option"

record BenefitTier =
  tier_name :: string
  price :: rat
  benefits :: "string list"

record Proposal =
  p_title :: string
  p_description :: string
  p_date :: "string option"
  p_location :: "string option"
  audience_summary :: string
  value_proposition :: "string list"
  tiers :: "BenefitTier list"
  p_objectives :: "string list"

section \<open>Proposal synthesis (main.py, utility generators)\<close>

subsection \<open>Python built-ins used by the generators\<close>

text \<open>The decimal digit of a number below ten.\<close>

definition digit_char :: "nat \<Rightarrow> char" where
  "digit_char d =
     (if d = 0 then CHR ''0'' else if d = 1 then CHR ''1'' else if d = 2 then CHR ''2''
      else if d = 3 then CHR ''3'' else if d = 4 then CHR ''4'' else if d = 5 then CHR ''5''
      else if d = 6 then CHR ''6'' else if d = 7 then CHR ''7'' else if d = 8 then CHR ''8''
      else CHR ''9'')"

fun str_nat :: "nat \<Rightarrow> string" where
  "str_nat n = (if n < 10 then [digit_char n] else str_nat (n div 10) @ [digit_char (n mod 10)])"

declare str_nat.simps [simp del]

text \<open>Inserting the separators works on the reversed digit string: after every third
  digit that still has a digit behind it.\<close>

fun commas_rev :: "string \<Rightarrow> string" where
  "commas_rev (a # b # c # d # rest) = a # b # c # CHR '','' # commas_rev (d # rest)"
| "commas_rev xs = xs"

text \<open>The format specification \<open>{n:,}\<close> of an integer.\<close>

definition fmt_thousands :: "int \<Rightarrow> string" where
  "fmt_thousands n =
     (if n < 0 then ''-'' else '''') @ rev (commas_rev (rev (str_nat (nat \<bar>n\<bar>))))"

text \<open>\<open>sep.join(xs)\<close>.\<close>

fun join :: "string \<Rightarrow> string list \<Rightarrow> string" where
  "join sep [] = ''''"
| "join sep [x] = x"
| "join sep (x # y # ys) = x @ sep @ join sep (y # ys)"

text \<open>\<open>round(x, 2)\<close>: to the nearest hundredth, a tie going to the even neighbour.\<close>

definition round_half_even :: "rat \<Rightarrow> int" where
  "round_half_even x =
     (let f = \<lfloor>x\<rfloor>; d = x - of_int f
      in if d < 1 / 2 then f
         else if 1 / 2 < d then f + 1
         else if even f then f else f + 1)"

definition round2 :: "rat \<Rightarrow> rat" where
  "round2 x = of_int (round_half_even (x * 100)) / 100"

subsection \<open>The generators\<close>

text \<open>Truth tests of Python: \<open>None\<close>, \<open>0\<close>, the empty string and the empty list are
  false. \<open>x or d\<close> is \<open>d\<close> exactly when \<open>x\<close> is false.\<close>

definition int_or :: "int option \<Rightarrow> int \<Rightarrow> int" where
  "int_or x d = (case x of None \<Rightarrow> d | Some n \<Rightarrow> if n = 0 then d else n)"

definition list_or :: "'a list option \<Rightarrow> 'a list \<Rightarrow> 'a list" where
  "list_or x d = (case x of None \<Rightarrow> d | Some xs \<Rightarrow> if xs = [] then d else xs)"

definition synthesize_audience_summary :: "ProposalInput \<Rightarrow> string" where
  "synthesize_audience_summary inp =
     (let size = (case audience_size inp of
                    None \<Rightarrow> ''audience aligned to your niche''
                  | Some n \<Rightarrow> if n \<noteq> 0 then ''~'' @ fmt_thousands n @ '' attendees''
                             else ''audience aligned to your niche'');
          demo = (case demographics inp of
                    None \<Rightarrow> ''Mixed age groups with strong local presence''
                  | Some d \<Rightarrow> if d \<noteq> [] then d
                             else ''Mixed age groups with strong local presence'');
          channels = (case engagement_channels inp of
                        None \<Rightarrow> ''email, social, on-site activations''
                      | Some cs \<Rightarrow> if cs \<noteq> [] then join '', '' cs
                                  else ''email, social, on-site activations'')
      in ''Projected reach '' @ size @ ''. Demographics: '' @ demo
           @ ''. Engagement via '' @ channels @ ''.'')"

definition base_price :: "ProposalInput \<Rightarrow> rat" where
  "base_price inp = max 500 (of_int (int_or (audience_size inp) 500) * (1 / 2))"

definition default_tiers :: "ProposalInput \<Rightarrow> BenefitTier list" where
  "default_tiers inp =
     [\<lparr>tier_name = ''Bronze'', price = round2 (base_price inp),
       benefits = [''Logo on website'', ''Social media mention'', ''2 event passes'']\<rparr>,
      \<lparr>tier_name = ''Silver'', price = round2 (base_price inp * 2),
       benefits = [''Medium logo placement'', ''2 dedicated social posts'', ''4 event passes'',
                   ''Booth space'']\<rparr>,
      \<lparr>tier_name = ''Gold'', price = round2 (base_price inp * (7 / 2)),
       benefits = [''Prime logo placement'', ''Newsletter feature'', ''Stage shoutout'',
                   ''6 event passes'', ''Lead capture access'']\<rparr>]"

definition value_points :: "ProposalInput \<Rightarrow> string list" where
  "value_points inp =
     [''Direct access to target local audiences'',
      ''Brand visibility across digital and on-site touchpoints'',
      ''Measurable engagement and post-event reporting'',
      ''Long-term partnership opportunities'']"

text \<open>The \<open>Proposal(...)\<close> value that \<open>generate_proposal\<close> builds before persisting it.\<close>

definition build_proposal :: "ProposalInput \<Rightarrow> Proposal" where
  "build_proposal inp =
     \<lparr>p_title = title inp, p_description = description inp, p_date = date inp,
      p_location = location inp,
      audience_summary = synthesize_audience_summary inp,
      value_proposition = value_points inp,
      tiers = default_tiers inp,
      p_objectives = list_or (objectives inp) []\<rparr>"

section \<open>Local sponsor finder\<close>

datatype status = New | Contacted | In_discussion | Pending | Confirmed | Declined

fun status_str :: "status \<Rightarrow> string" where
  "status_str New = ''new''"
| "status_str Contacted = ''contacted''"
| "status_str In_discussion = ''in_discussion''"
| "status_str Pending = ''pending''"
| "status_str Confirmed = ''confirmed''"
| "status_str Declined = ''declined''"

record Sponsor =
  name :: string
  industry :: string
  s_location :: string
  email :: "string option"
  phone :: "string option"
  website :: "string option"
  status :: status
  proposal_id :: "string option"
  s_notes :: "string option"
  next_follow_up :: "string option"

record FindSponsorsRequest =
  fs_location :: string
  industries :: "string list"
  limit :: int

text \<open>An entry of \<open>SEED_BUSINESSES\<close>: a dict with the keys name, industry and website.\<close>

record Business =
  b_name :: string
  b_industry :: string
  b_website :: string

definition SEED_BUSINESSES :: "Business list" where
  "SEED_BUSINESSES =
     [\<lparr>b_name = ''City Fitness'', b_industry = ''Health & Wellness'',
       b_website = ''https://cityfitness.example''\<rparr>,
      \<lparr>b_name = ''Brewed Awakenings'', b_industry = ''Food & Beverage'',
       b_website = ''https://brew.example''\<rparr>,
      \<lparr>b_name = ''Green Wheels Bikes'', b_industry = ''Retail'',
       b_website = ''https://greenwheels.example''\<rparr>,
      \<lparr>b_name = ''Tech Hub Co-Work'', b_industry = ''Technology'',
       b_website = ''https://techhub.example''\<rparr>,
      \<lparr>b_name = ''River Bank Credit'', b_industry = ''Finance'',
       b_website = ''https://riverbank.example''\<rparr>]"

text \<open>\<open>str.lower\<close> on the letters A to Z; the catalog is ASCII.\<close>

definition lower_char :: "char \<Rightarrow> char" where
  "lower_char c =
     (case map_of (zip ''ABCDEFGHIJKLMNOPQRSTUVWXYZ'' ''abcdefghijklmnopqrstuvwxyz'') c of
        None \<Rightarrow> c
      | Some l \<Rightarrow> l)"

definition lower :: "string \<Rightarrow> string" where
  "lower s = map lower_char s"

text \<open>\<open>needle in hay\<close> on strings: the needle starts at some position of the hay.\<close>

fun starts_with :: "string \<Rightarrow> string \<Rightarrow> bool" where
  "starts_with [] hay = True"
| "starts_with (n # ns) [] = False"
| "starts_with (n # ns) (h # hs) = (n = h \<and> starts_with ns hs)"

fun contains :: "string \<Rightarrow> string \<Rightarrow> bool" where
  "contains needle [] = (needle = [])"
| "contains needle (h # hs) = (starts_with needle (h # hs) \<or> contains needle hs)"

text \<open>\<open>any(i.lower() in ind.lower() for i in industries)\<close>.\<close>

fun any_industry :: "string list \<Rightarrow> string \<Rightarrow> bool" where
  "any_industry [] ind = False"
| "any_industry (i # is) ind = (contains (lower i) (lower ind) \<or> any_industry is ind)"

definition candidate :: "FindSponsorsRequest \<Rightarrow> Business \<Rightarrow> Sponsor" where
  "candidate req b =
     \<lparr>name = b_name b, industry = b_industry b, s_location = fs_location req,
      email = Some (''info@'' @ lower (filter (\<lambda>c. c \<noteq> CHR '' '') (b_name b)) @ ''.com''),
      phone = Some ''(555) 123-4567'', website = Some (b_website b),
      status = New, proposal_id = None, s_notes = None, next_follow_up = None\<rparr>"

text \<open>The \<open>for b in SEED_BUSINESSES\<close> loop, with \<open>matches\<close> as the accumulator.\<close>

fun find_loop :: "FindSponsorsRequest \<Rightarrow> Business list \<Rightarrow> Sponsor list \<Rightarrow> Sponsor list" where
  "find_loop req [] matches = matches"
| "find_loop req (b # bs) matches =
     find_loop req bs
       (if industries req = [] \<or> any_industry (industries req) (b_industry b)
        then matches @ [candidate req b] else matches)"

text \<open>The slice \<open>xs[:k]\<close>: a negative \<open>k\<close> counts from the end of the list.\<close>

definition slice_to :: "'a list \<Rightarrow> int \<Rightarrow> 'a list" where
  "slice_to xs k = (if k < 0 then take (nat (int (length xs) + k)) xs else take (nat k) xs)"

definition find_sponsors :: "FindSponsorsRequest \<Rightarrow> Sponsor list" where
  "find_sponsors req = slice_to (find_loop req SEED_BUSINESSES []) (limit req)"

text \<open>The matching rule in the words of the specification: the requested list is empty,
  or some requested industry occurs, letter case ignored, inside the candidate's industry.\<close>

definition occurs_in :: "string \<Rightarrow> string \<Rightarrow> bool" where
  "occurs_in needle hay = (\<exists>before after. hay = before @ needle @ after)"

definition spec_matches :: "string list \<Rightarrow> Business \<Rightarrow> bool" where
  "spec_matches inds b =
     (inds = [] \<or> (\<exists>i \<in> set inds. occurs_in (lower i) (lower (b_industry b))))"

section \<open>The document store\<close>

text \<open>
  The module \<open>database\<close> and the driver behind it are not part of the source. The
  handlers use the handle \<open>db\<close> (\<open>None\<close> when no store is configured), the collections
  \<open>db["sponsor"]\<close> and \<open>db["followup"]\<close> with \<open>update_one\<close>, \<open>find_one\<close>,
  \<open>count_documents\<close> and \<open>find().sort().limit()\<close>, the identifier constructor
  \<open>ObjectId\<close>, and \<open>create_document\<close>. A document is a dict, kept as an association
  list; a collection is the list of its documents. The identifier constructor and
  \<open>create_document\<close> are parameters of the handlers that call them. A truth test of
  the handle (\<open>if db\<close>) is read as the test \<open>db is not None\<close>.
\<close>

datatype val = VNull | VStr string | VOid string | VDate nat

type_synonym doc = "(string \<times> val) list"

type_synonym database = "string \<Rightarrow> doc list"

text \<open>A filter \<open>{k: v, ...}\<close> selects the documents that hold each \<open>v\<close> under its \<open>k\<close>.\<close>

definition matches_filter :: "doc \<Rightarrow> doc \<Rightarrow> bool" where
  "matches_filter filt d = list_all (\<lambda>(k, v). map_of d k = Some v) filt"

text \<open>\<open>{"$set": sets}\<close> applied to one document.\<close>

definition set_fields :: "doc \<Rightarrow> doc \<Rightarrow> doc" where
  "set_fields sets d = foldl (\<lambda>acc (k, v). AList.update k v acc) d sets"

text \<open>\<open>update_one\<close> changes the first document the filter selects, and nothing when
  there is none.\<close>

fun update_one :: "doc \<Rightarrow> doc \<Rightarrow> doc list \<Rightarrow> doc list" where
  "update_one filt sets [] = []"
| "update_one filt sets (d # ds) =
     (if matches_filter filt d then set_fields sets d # ds
      else d # update_one filt sets ds)"

fun find_one :: "doc \<Rightarrow> doc list \<Rightarrow> doc option" where
  "find_one filt [] = None"
| "find_one filt (d # ds) = (if matches_filter filt d then Some d else find_one filt ds)"





text \<open>\<open>str(v)\<close> for the values a document holds; a timestamp is carried as a number.\<close>

fun py_str :: "val \<Rightarrow> string" where
  "py_str VNull = ''None''"
| "py_str (VStr s) = s"
| "py_str (VOid i) = i"
| "py_str (VDate t) = str_nat t"

datatype error = HTTPException nat string | TypeError

section \<open>Tracking and CRM\<close>

record UpdateStatusRequest =
  us_sponsor_id :: string
  us_status :: status

record AddNoteRequest =
  an_sponsor_id :: string
  an_note :: string

text \<open>Both handlers answer \<open>{"ok": True}\<close>; the result is the store after the call.
  \<open>ObjectId\<close> is the identifier constructor (\<open>None\<close> where it raises), \<open>now\<close> the
  value of \<open>datetime.utcnow()\<close>.\<close>

definition update_status ::
  "(string \<Rightarrow> string option) \<Rightarrow> nat \<Rightarrow> database option \<Rightarrow> UpdateStatusRequest
     \<Rightarrow> error + database" where
  "update_status ObjectId now db req =
     (case db of
        None \<Rightarrow> Inl (HTTPException 500 ''Database not configured'')
      | Some d \<Rightarrow>
          (case ObjectId (us_sponsor_id req) of
             None \<Rightarrow> Inl (HTTPException 400 ''Invalid sponsor id'')
           | Some oid \<Rightarrow>
               Inr (d(''sponsor'' :=
                      update_one [(''_id'', VOid oid)]
                        [(''status'', VStr (status_str (us_status req))),
                         (''updated_at'', VDate now)]
                        (d ''sponsor'')))))"

text \<open>\<open>add_note\<close> has no test of the handle: without a store, \<open>db["sponsor"]\<close> raises
  a \<open>TypeError\<close> after the identifier has been accepted.\<close>

definition add_note ::
  "(string \<Rightarrow> string option) \<Rightarrow> nat \<Rightarrow> database option \<Rightarrow> AddNoteRequest
     \<Rightarrow> error + database" where
  "add_note ObjectId now db req =
     (case ObjectId (an_sponsor_id req) of
        None \<Rightarrow> Inl (HTTPException 400 ''Invalid sponsor id'')
      | Some oid \<Rightarrow>
          (case db of
             None \<Rightarrow> Inl TypeError
           | Some d \<Rightarrow>
               Inr (d(''sponsor'' :=
                      update_one [(''_id'', VOid oid)]
                        [(''notes'', VStr (an_note req)), (''updated_at'', VDate now)]
                        (d ''sponsor'')))))"

section \<open>Dashboard\<close>






section \<open>Outreach\<close>

datatype tone = Professional | Friendly | Concise

record GenerateEmailRequest =
  ge_sponsor_id :: string
  ge_proposal_id :: "string option"
  tone :: tone

record Email =
  subject :: string
  body :: string

text \<open>\<open>d.get(k)\<close>: \<open>None\<close> for a missing key.\<close>

definition dict_get :: "doc \<Rightarrow> string \<Rightarrow> val" where
  "dict_get d k = (case map_of d k of None \<Rightarrow> VNull | Some v \<Rightarrow> v)"

text \<open>\<open>a + b\<close> where \<open>a\<close> is a string: a \<open>TypeError\<close> unless \<open>b\<close> is a string too.\<close>

definition str_add :: "error + string \<Rightarrow> val \<Rightarrow> error + string" where
  "str_add a b =
     (case a of Inl e \<Rightarrow> Inl e
      | Inr x \<Rightarrow> (case b of VStr y \<Rightarrow> Inr (x @ y) | _ \<Rightarrow> Inl TypeError))"

definition lookup_sponsor :: "(string \<Rightarrow> string option) \<Rightarrow> database option \<Rightarrow> string \<Rightarrow> doc option" where
  "lookup_sponsor ObjectId db sponsor_id =
     (case db of
        None \<Rightarrow> None
      | Some d \<Rightarrow>
          if sponsor_id = [] then None
          else (case ObjectId sponsor_id of
                  None \<Rightarrow> None
                | Some oid \<Rightarrow> find_one [(''_id'', VOid oid)] (d ''sponsor'')))"

text \<open>\<open>sponsor.get(k) if sponsor else fallback\<close>: the test is false for \<open>None\<close> and
  for the empty dict.\<close>

definition get_if :: "doc option \<Rightarrow> string \<Rightarrow> val \<Rightarrow> val" where
  "get_if sponsor k fallback =
     (case sponsor of
        None \<Rightarrow> fallback
      | Some d \<Rightarrow> if d \<noteq> [] then dict_get d k else fallback)"

definition generate_outreach_email ::
  "(string \<Rightarrow> string option) \<Rightarrow> database option \<Rightarrow> GenerateEmailRequest \<Rightarrow> error + Email" where
  "generate_outreach_email ObjectId db req =
     (let sponsor = lookup_sponsor ObjectId db (ge_sponsor_id req);
          company = get_if sponsor ''name'' (VStr ''Partner'');
          subj = ''Sponsorship Opportunity: '' @ py_str company @ '' x Our Event'';
          b1 = str_add (Inr ''Hello '')
                 (if company \<noteq> VStr ''Partner'' then company else VStr ''there'');
          b2 = str_add b1 (VStr ('','' @ [CHR 0x0A, CHR 0x0A]));
          b3 = str_add b2 (VStr (''I'' @ [CHR 0x27] @ ''m reaching out to explore a potential sponsorship partnership. Based on your focus in ''));
          b4 = str_add b3 (get_if sponsor ''industry'' (VStr ''your industry''));
          b5 = str_add b4 (VStr ('', we believe there'' @ [CHR 0x27] @ ''s strong alignment with our audience.'' @ [CHR 0x0A, CHR 0x0A]));
          b6 = str_add b5 (VStr (''Happy to send a tailored proposal and discuss options (Bronze, Silver, Gold) suited to your goals.'' @ [CHR 0x0A, CHR 0x0A]));
          b7 = str_add b6 (VStr (''Best regards,'' @ [CHR 0x0A] @ ''Your Name''))
      in (case b7 of Inl e \<Rightarrow> Inl e | Inr b \<Rightarrow> Inr \<lparr>subject = subj, body = b\<rparr>))"

section \<open>Proposal builder\<close>

text \<open>\<open>create_document\<close> is a parameter: it takes the store and the snapshot to persist
  and either raises or returns the new identifier and the store after the insertion.\<close>

definition generate_proposal ::
  "('st \<Rightarrow> string \<Rightarrow> Proposal \<Rightarrow> error + string \<times> 'st) \<Rightarrow> 'st \<Rightarrow> ProposalInput
     \<Rightarrow> error + Proposal \<times> 'st" where
  "generate_proposal create_document st inp =
     (let proposal = build_proposal inp
      in (case create_document st ''proposal'' proposal of
            Inl e \<Rightarrow> Inl e
          | Inr (new_id, st') \<Rightarrow> Inr (proposal, st')))"

text \<open>Concrete parameters for running the model: identifiers of 24 hexadecimal digits,
  and a store of snapshots that appends and numbers them.\<close>

definition is_hex :: "char \<Rightarrow> bool" where
  "is_hex c = (c \<in> set ''0123456789abcdefABCDEF'')"

definition hex_oid :: "string \<Rightarrow> string option" where
  "hex_oid s = (if length s = 24 \<and> list_all is_hex s then Some (lower s) else None)"

definition append_snapshot :: "Proposal list \<Rightarrow> string \<Rightarrow> Proposal \<Rightarrow> error + string \<times> Proposal list" where
  "append_snapshot st kind p = Inr (str_nat (length st), st @ [p])"

section \<open>Concrete inputs\<close>

definition no_audience :: ProposalInput where
  "no_audience = \<lparr>title = ''Gala'', description = ''Annual gala'', date = None, location = None,
     audience_size = None, demographics = None, engagement_channels = None, objectives = None,
     industries_target = None\<rparr>"

definition all_two :: FindSponsorsRequest where
  "all_two = \<lparr>fs_location = ''Austin'', industries = [], limit = 2\<rparr>"

definition finance_ten :: FindSponsorsRequest where
  "finance_ten = \<lparr>fs_location = ''Austin'', industries = [''Finance''], limit = 10\<rparr>"

definition retail_zero :: FindSponsorsRequest where
  "retail_zero = \<lparr>fs_location = ''Austin'', industries = [''retail''], limit = 0\<rparr>"

definition zero_audience :: ProposalInput where
  "zero_audience = no_audience\<lparr>audience_size := Some 0\<rparr>"

definition campus_fair :: ProposalInput where
  "campus_fair = \<lparr>title = ''Campus Fair'', description = ''Spring fair'', date = None,
     location = None, audience_size = Some 12500, demographics = Some ''Students'',
     engagement_channels = Some [''email'', ''radio''], objectives = None,
     industries_target = None\<rparr>"

definition acme_id :: string where
  "acme_id = ''0123456789abcdef01234567''"

definition acme_doc :: doc where
  "acme_doc = [(''_id'', VOid acme_id), (''name'', VStr ''Acme Tools''),
     (''industry'', VStr ''Retail''), (''location'', VStr ''Austin''), (''email'', VNull),
     (''phone'', VNull), (''website'', VNull), (''status'', VStr ''new''),
     (''proposal_id'', VNull), (''notes'', VStr ''first call done''),
     (''next_follow_up'', VNull)]"

definition brew_doc :: doc where
  "brew_doc = [(''_id'', VOid ''aaaaaaaaaaaaaaaaaaaaaaaa''), (''name'', VStr ''Brew Co''),
     (''industry'', VStr ''Food & Beverage''), (''location'', VStr ''Austin''),
     (''status'', VStr ''confirmed'')]"

definition crm_db :: database where
  "crm_db = (\<lambda>c. []) (''sponsor'' := [brew_doc, acme_doc])"

definition absent_id :: string where
  "absent_id = ''ffffffffffffffffffffffff''"

definition empty_db :: database where
  "empty_db = (\<lambda>c. [])"



section \<open>Tier pricing\<close>

text \<open>Rounding changes none of the prices: each is a whole number of quarters.\<close>

lemma round_half_even_int: "round_half_even (of_int m) = m"
  by (simp add: round_half_even_def)

lemma round2_quarters: "round2 (of_int k / 4) = of_int k / 4"
proof -
  have "(of_int k / 4 :: rat) * 100 = of_int (25 * k)" by simp
  then have "round2 (of_int k / 4) = of_int (25 * k) / 100"
    unfolding round2_def by (simp only: round_half_even_int)
  then show ?thesis by simp
qed

lemma base_price_halves: "base_price inp = of_int (max 1000 (int_or (audience_size inp) 500)) / 2"
  by (simp add: base_price_def max_def)


lemma base_price_ge: "500 \<le> base_price inp"
  by (simp add: base_price_def)

lemma round2_exact: "x = of_int k / 4 \<Longrightarrow> round2 x = x"
  by (simp only: round2_quarters)

lemma round2_base: "round2 (base_price inp) = base_price inp"
  by (rule round2_exact [of _ "2 * max 1000 (int_or (audience_size inp) 500)"])
     (simp add: base_price_halves)

lemma round2_base2: "round2 (base_price inp * 2) = base_price inp * 2"
  by (rule round2_exact [of _ "4 * max 1000 (int_or (audience_size inp) 500)"])
     (simp add: base_price_halves)

lemma round2_base7: "round2 (base_price inp * (7 / 2)) = base_price inp * (7 / 2)"
  by (rule round2_exact [of _ "7 * max 1000 (int_or (audience_size inp) 500)"])
     (simp add: base_price_halves)

lemma prices_exact:
  "map price (default_tiers inp) = [base_price inp, base_price inp * 2, base_price inp * (7 / 2)]"
  unfolding default_tiers_def list.map BenefitTier.simps
  by (simp only: round2_base round2_base2 round2_base7)




text \<open>
  C5: every synthesized proposal has exactly the three tiers Bronze, Silver, Gold, in this
  order, with strictly increasing prices.
\<close>

theorem proposal_tiers_increasing:
  "map tier_name (tiers (build_proposal inp)) = [''Bronze'', ''Silver'', ''Gold''] \<and>
   length (tiers (build_proposal inp)) = 3 \<and>
   price (tiers (build_proposal inp) ! 0) < price (tiers (build_proposal inp) ! 1) \<and>
   price (tiers (build_proposal inp) ! 1) < price (tiers (build_proposal inp) ! 2)"
proof -
  have ts: "tiers (build_proposal inp) = default_tiers inp"
    by (simp add: build_proposal_def)
  have names: "map tier_name (default_tiers inp) = [''Bronze'', ''Silver'', ''Gold'']"
    by (simp add: default_tiers_def)
  have len: "length (default_tiers inp) = 3"
    by (simp add: default_tiers_def)
  have p: "map price (default_tiers inp) = [base_price inp, base_price inp * 2, base_price inp * (7 / 2)]"
    by (rule prices_exact)
  have p0: "price (default_tiers inp ! 0) = base_price inp"
    using p len by (metis nth_map nth_Cons_0 zero_less_numeral)
  have p1: "price (default_tiers inp ! 1) = base_price inp * 2"
    using arg_cong [OF p, of "\<lambda>xs. xs ! 1"] len by simp
  have p2: "price (default_tiers inp ! 2) = base_price inp * (7 / 2)"
    using arg_cong [OF p, of "\<lambda>xs. xs ! 2"] len by simp
  have pos: "0 < base_price inp" using base_price_ge [of inp] by simp
  show ?thesis using ts names len p0 p1 p2 pos by simp
qed

section \<open>Determinism of the proposal builder\<close>

text \<open>
  C8: the proposal returned by \<open>generate_proposal\<close> depends on the input alone.
  Whenever persisting the snapshot succeeds, the call returns the proposal built from the
  input; and two calls on the same input that both return, whatever the store and its
  state, return the same proposal.
\<close>

theorem generate_proposal_deterministic:
  "(create_document st ''proposal'' (build_proposal inp) = Inr (new_id, st') \<longrightarrow>
      generate_proposal create_document st inp = Inr (build_proposal inp, st')) \<and>
   (generate_proposal create1 st1 inp = Inr (p1, t1) \<and>
    generate_proposal create2 st2 inp = Inr (p2, t2) \<longrightarrow> p1 = p2)"
  by (auto simp: generate_proposal_def Let_def split: sum.splits)

theorem generate_proposal_deterministic_witness:
  "generate_proposal append_snapshot [] no_audience
     = Inr (build_proposal no_audience, [build_proposal no_audience]) \<and>
   generate_proposal append_snapshot [build_proposal no_audience] no_audience
     = Inr (build_proposal no_audience, [build_proposal no_audience, build_proposal no_audience])"
proof -
  have first: "append_snapshot [] ''proposal'' (build_proposal no_audience)
      = Inr (''0'', [build_proposal no_audience])"
    by (simp add: append_snapshot_def str_nat.simps digit_char_def)
  have second: "append_snapshot [build_proposal no_audience] ''proposal'' (build_proposal no_audience)
      = Inr (''1'', [build_proposal no_audience, build_proposal no_audience])"
    by (simp add: append_snapshot_def str_nat.simps digit_char_def)
  show ?thesis
    using first second
      generate_proposal_deterministic
        [of append_snapshot "[]" no_audience "''0''" "[build_proposal no_audience]", THEN conjunct1]
      generate_proposal_deterministic
        [of append_snapshot "[build_proposal no_audience]" no_audience "''1''"
           "[build_proposal no_audience, build_proposal no_audience]", THEN conjunct1]
    by simp
qed

section \<open>Sponsor matching\<close>

text \<open>The substring test and the loop compute the matching rule of the specification.\<close>

lemma starts_with_iff: "starts_with needle hay \<longleftrightarrow> (\<exists>rest. hay = needle @ rest)"
  by (induction needle hay rule: starts_with.induct) auto

lemma contains_iff: "contains needle hay \<longleftrightarrow> occurs_in needle hay"
proof (induction hay)
  case Nil
  show ?case by (auto simp: occurs_in_def)
next
  case (Cons h hs)
  have "occurs_in needle (h # hs) \<longleftrightarrow> (\<exists>rest. h # hs = needle @ rest) \<or> occurs_in needle hs"
    unfolding occurs_in_def
    by (auto simp: Cons_eq_append_conv)
  with Cons show ?case by (simp add: starts_with_iff)
qed

lemma any_industry_iff:
  "any_industry inds ind \<longleftrightarrow> (\<exists>i \<in> set inds. occurs_in (lower i) (lower ind))"
  by (induction inds) (simp_all add: contains_iff)

lemma loop_test_iff:
  "(industries req = [] \<or> any_industry (industries req) (b_industry b))
     \<longleftrightarrow> spec_matches (industries req) b"
  by (simp add: spec_matches_def any_industry_iff)

lemma find_loop_eq:
  "find_loop req bs acc
     = acc @ map (candidate req) (filter (spec_matches (industries req)) bs)"
  by (induction bs arbitrary: acc) (simp_all add: loop_test_iff)

lemma slice_to_nonneg: "0 \<le> k \<Longrightarrow> slice_to xs k = take (nat k) xs"
  by (simp add: slice_to_def)

lemma find_sponsors_take:
  "0 \<le> limit req \<Longrightarrow>
   find_sponsors req = take (nat (limit req))
     (map (candidate req) (filter (spec_matches (industries req)) SEED_BUSINESSES))"
  by (simp add: find_sponsors_def find_loop_eq slice_to_nonneg)

lemma finance_only:
  "filter (spec_matches [''Finance'']) SEED_BUSINESSES
     = [\<lparr>b_name = ''River Bank Credit'', b_industry = ''Finance'',
         b_website = ''https://riverbank.example''\<rparr>]"
  by (simp add: SEED_BUSINESSES_def spec_matches_def contains_iff [symmetric]
        lower_def lower_char_def)

lemma match_all: "filter (spec_matches []) bs = bs"
  by (simp add: spec_matches_def)

text \<open>Outside the contract of the operation: a negative limit makes the slice drop
  entries from the end instead.\<close>

lemma find_sponsors_negative_limit:
  "map name (find_sponsors \<lparr>fs_location = ''Austin'', industries = [], limit = - 1\<rparr>)
     = [''City Fitness'', ''Brewed Awakenings'', ''Green Wheels Bikes'', ''Tech Hub Co-Work'']"
  by (simp add: find_sponsors_def slice_to_def SEED_BUSINESSES_def candidate_def)

text \<open>
  C4: for a limit of at least 0, \<open>find_sponsors\<close> returns, in catalog order, the
  candidates the matching rule selects (empty request list, or some requested industry
  occurring in the candidate's industry with letter case ignored), cut to at most
  \<open>limit\<close> entries. The catalog has 5 entries; an empty request list returns the catalog
  cut to the limit, the request \<open>["Finance"]\<close> returns the River Bank Credit entry alone,
  and a limit of 0 returns the empty list.
\<close>

theorem find_sponsors_spec:
  "0 \<le> limit req \<longrightarrow>
     find_sponsors req = take (nat (limit req))
       (map (candidate req) (filter (spec_matches (industries req)) SEED_BUSINESSES)) \<and>
     length (find_sponsors req) \<le> nat (limit req) \<and>
     length SEED_BUSINESSES = 5 \<and>
     (industries req = [] \<longrightarrow>
        find_sponsors req = take (nat (limit req)) (map (candidate req) SEED_BUSINESSES)) \<and>
     (industries req = [''Finance''] \<and> 1 \<le> limit req \<longrightarrow>
        map name (find_sponsors req) = [''River Bank Credit'']) \<and>
     (limit req = 0 \<longrightarrow> find_sponsors req = [])"
proof
  assume nonneg: "0 \<le> limit req"
  note eq = find_sponsors_take [OF nonneg]
  have len: "length (find_sponsors req) \<le> nat (limit req)"
    by (simp add: eq)
  have five: "length SEED_BUSINESSES = 5"
    by (simp add: SEED_BUSINESSES_def)
  have all: "industries req = [] \<longrightarrow>
        find_sponsors req = take (nat (limit req)) (map (candidate req) SEED_BUSINESSES)"
    by (simp add: eq match_all)
  have fin: "industries req = [''Finance''] \<and> 1 \<le> limit req \<longrightarrow>
        map name (find_sponsors req) = [''River Bank Credit'']"
  proof
    assume h: "industries req = [''Finance''] \<and> 1 \<le> limit req"
    then have "take (nat (limit req)) [x] = [x]" for x :: Sponsor
      by (cases "nat (limit req)") simp_all
    with h show "map name (find_sponsors req) = [''River Bank Credit'']"
      by (simp add: eq finance_only candidate_def)
  qed
  have zero: "limit req = 0 \<longrightarrow> find_sponsors req = []"
    by (simp add: eq)
  from eq len five all fin zero
  show "find_sponsors req = take (nat (limit req))
       (map (candidate req) (filter (spec_matches (industries req)) SEED_BUSINESSES)) \<and>
     length (find_sponsors req) \<le> nat (limit req) \<and>
     length SEED_BUSINESSES = 5 \<and>
     (industries req = [] \<longrightarrow>
        find_sponsors req = take (nat (limit req)) (map (candidate req) SEED_BUSINESSES)) \<and>
     (industries req = [''Finance''] \<and> 1 \<le> limit req \<longrightarrow>
        map name (find_sponsors req) = [''River Bank Credit'']) \<and>
     (limit req = 0 \<longrightarrow> find_sponsors req = [])"
    by blast
qed

theorem find_sponsors_spec_witness:
  "(0 \<le> limit all_two \<and> industries all_two = [] \<and>
    map name (find_sponsors all_two) = [''City Fitness'', ''Brewed Awakenings'']) \<and>
   (0 \<le> limit finance_ten \<and> industries finance_ten = [''Finance''] \<and> 1 \<le> limit finance_ten \<and>
    map name (find_sponsors finance_ten) = [''River Bank Credit'']) \<and>
   (0 \<le> limit retail_zero \<and> limit retail_zero = 0 \<and> find_sponsors retail_zero = [])"
proof -
  have a: "0 \<le> limit all_two" "industries all_two = []"
    by (simp_all add: all_two_def)
  have f: "0 \<le> limit finance_ten" "industries finance_ten = [''Finance''] \<and> 1 \<le> limit finance_ten"
    by (simp_all add: finance_ten_def)
  have z: "0 \<le> limit retail_zero" "limit retail_zero = 0"
    by (simp_all add: retail_zero_def)
  note sa = find_sponsors_spec [of all_two, THEN mp, OF a(1)]
  note sf = find_sponsors_spec [of finance_ten, THEN mp, OF f(1)]
  note sz = find_sponsors_spec [of retail_zero, THEN mp, OF z(1)]
  have "find_sponsors all_two = take (nat (limit all_two)) (map (candidate all_two) SEED_BUSINESSES)"
    using sa a(2) by blast
  then have ra: "map name (find_sponsors all_two) = [''City Fitness'', ''Brewed Awakenings'']"
    by (simp add: all_two_def SEED_BUSINESSES_def candidate_def)
  have rf: "map name (find_sponsors finance_ten) = [''River Bank Credit'']"
    using sf f(2) by blast
  have rz: "find_sponsors retail_zero = []"
    using sz z(2) by blast
  from a f z ra rf rz show ?thesis by blast
qed

section \<open>Audience summary\<close>

text \<open>The separators of the grouped count: removing them leaves the digits, and from
  the right every fourth character, and no other, is a separator.\<close>

lemma digit_char_no_comma: "digit_char d \<noteq> CHR '',''" "CHR '','' \<noteq> digit_char d"
  by (simp_all add: digit_char_def)

lemma str_nat_no_comma: "CHR '','' \<notin> set (str_nat n)"
proof (induction n rule: str_nat.induct)
  case (1 n)
  show ?case
  proof (cases "n < 10")
    case True
    then show ?thesis by (subst str_nat.simps) (simp add: digit_char_no_comma)
  next
    case False
    with 1 show ?thesis by (subst str_nat.simps) (simp add: digit_char_no_comma)
  qed
qed

lemma commas_rev_filter:
  "CHR '','' \<notin> set ds \<Longrightarrow> filter (\<lambda>c. c \<noteq> CHR '','') (commas_rev ds) = ds"
  by (induction ds rule: commas_rev.induct) auto

lemma commas_rev_positions:
  "CHR '','' \<notin> set ds \<Longrightarrow> i < length (commas_rev ds) \<Longrightarrow>
     (commas_rev ds ! i = CHR '','') = (i mod 4 = 3)"
proof (induction ds arbitrary: i rule: commas_rev.induct)
  case (1 a b c d rest)
  consider "i = 0" | "i = 1" | "i = 2" | "i = 3" | "4 \<le> i" by linarith
  then show ?case
  proof cases
    case 5
    then obtain j where j: "i = j + 4" by (metis add.commute le_Suc_ex)
    with 1 show ?thesis by simp
  qed (use 1 in auto)
qed (auto simp: nth_Cons' less_Suc_eq_0_disj split: if_splits)

lemma fmt_thousands_digits:
  "filter (\<lambda>c. c \<noteq> CHR '','') (fmt_thousands n)
     = (if n < 0 then ''-'' else '''') @ str_nat (nat \<bar>n\<bar>)"
  by (simp add: fmt_thousands_def rev_filter [symmetric] commas_rev_filter str_nat_no_comma)

text \<open>
  C3, as stated, fails for an audience size of 0: the size is tested for truth, so 0 is
  treated like an absent size and the summary uses the generic phrase.
\<close>

theorem audience_summary_zero_counterexample:
  "synthesize_audience_summary zero_audience =
     ''Projected reach audience aligned to your niche. Demographics: Mixed age groups with strong local presence. Engagement via email, social, on-site activations.'' \<and>
   synthesize_audience_summary zero_audience \<noteq>
     ''Projected reach ~0 attendees. Demographics: Mixed age groups with strong local presence. Engagement via email, social, on-site activations.''"
  by (simp add: synthesize_audience_summary_def zero_audience_def no_audience_def)

text \<open>
  C3 (amended): the summary is the concatenation of the reach, demographics and channel
  facts, in this order. The reach is the thousands-grouped attendee count (the digits of
  the size, with separators only) when the audience size is present and not 0, and the
  generic phrase when it is absent or 0. Demographics and channels are the given text and
  the given channels joined by comma and space, and the fixed default phrases when they
  are absent or empty.
\<close>

theorem audience_summary_phrases:
  "\<exists>reach demo channels.
     synthesize_audience_summary inp =
       ''Projected reach '' @ reach @ ''. Demographics: '' @ demo
         @ ''. Engagement via '' @ channels @ ''.'' \<and>
     (\<forall>n. audience_size inp = Some n \<and> n \<noteq> 0 \<longrightarrow>
        reach = ''~'' @ fmt_thousands n @ '' attendees'' \<and>
        filter (\<lambda>c. c \<noteq> CHR '','') (fmt_thousands n)
          = (if n < 0 then ''-'' else '''') @ str_nat (nat \<bar>n\<bar>)) \<and>
     (audience_size inp = None \<or> audience_size inp = Some 0 \<longrightarrow>
        reach = ''audience aligned to your niche'') \<and>
     (\<forall>d. demographics inp = Some d \<and> d \<noteq> [] \<longrightarrow> demo = d) \<and>
     (demographics inp = None \<or> demographics inp = Some [] \<longrightarrow>
        demo = ''Mixed age groups with strong local presence'') \<and>
     (\<forall>cs. engagement_channels inp = Some cs \<and> cs \<noteq> [] \<longrightarrow> channels = join '', '' cs) \<and>
     (engagement_channels inp = None \<or> engagement_channels inp = Some [] \<longrightarrow>
        channels = ''email, social, on-site activations'')"
  unfolding synthesize_audience_summary_def Let_def
  by (intro exI conjI, rule refl)
     (auto simp: fmt_thousands_digits split: option.splits)

theorem audience_summary_phrases_witness:
  "audience_size campus_fair = Some 12500 \<and> (12500::int) \<noteq> 0 \<and>
   demographics campus_fair = Some ''Students'' \<and> ''Students'' \<noteq> [] \<and>
   engagement_channels campus_fair = Some [''email'', ''radio''] \<and>
   synthesize_audience_summary campus_fair =
     ''Projected reach ~12,500 attendees. Demographics: Students. Engagement via email, radio.''"
proof -
  have a: "audience_size campus_fair = Some 12500 \<and> (12500::int) \<noteq> 0"
    and d: "demographics campus_fair = Some ''Students'' \<and> ''Students'' \<noteq> []"
    and c: "engagement_channels campus_fair = Some [''email'', ''radio''] \<and> [''email'', ''radio''] \<noteq> []"
    by (simp_all add: campus_fair_def)
  from audience_summary_phrases [of campus_fair]
  obtain reach demo channels where
    s: "synthesize_audience_summary campus_fair =
         ''Projected reach '' @ reach @ ''. Demographics: '' @ demo
           @ ''. Engagement via '' @ channels @ ''.''"
    and r: "\<forall>n. audience_size campus_fair = Some n \<and> n \<noteq> 0 \<longrightarrow>
              reach = ''~'' @ fmt_thousands n @ '' attendees'' \<and>
              filter (\<lambda>c. c \<noteq> CHR '','') (fmt_thousands n)
                = (if n < 0 then ''-'' else []) @ str_nat (nat \<bar>n\<bar>)"
    and dm: "\<forall>d. demographics campus_fair = Some d \<and> d \<noteq> [] \<longrightarrow> demo = d"
    and ch: "\<forall>cs. engagement_channels campus_fair = Some cs \<and> cs \<noteq> [] \<longrightarrow> channels = join '', '' cs"
    by blast
  from r a have "reach = ''~'' @ fmt_thousands 12500 @ '' attendees''" by blast
  then have reach: "reach = ''~12,500 attendees''"
    by (simp add: fmt_thousands_def str_nat.simps digit_char_def)
  from dm d have demo: "demo = ''Students''" by blast
  from ch c have "channels = join '', '' [''email'', ''radio'']" by blast
  then have channels: "channels = ''email, radio''" by simp
  from s reach demo channels a d c show ?thesis by simp
qed

section \<open>Status and note updates\<close>

lemma update_one_absent:
  "find_one filt coll = None \<Longrightarrow> update_one filt sets coll = coll"
  by (induction coll) (auto split: if_splits)

lemma update_one_present:
  "find_one filt coll = Some d \<Longrightarrow>
     \<exists>pre post. coll = pre @ d # post \<and> (\<forall>x \<in> set pre. \<not> matches_filter filt x) \<and>
       matches_filter filt d \<and>
       update_one filt sets coll = pre @ set_fields sets d # post"
proof (induction coll)
  case Nil
  then show ?case by simp
next
  case (Cons x xs)
  show ?case
  proof (cases "matches_filter filt x")
    case True
    with Cons.prems have "x = d" by simp
    with True show ?thesis by (intro exI [of _ "[]"] exI [of _ xs]) simp
  next
    case False
    with Cons.prems have "find_one filt xs = Some d" by simp
    from Cons.IH [OF this] obtain pre post where
      "xs = pre @ d # post" "\<forall>x \<in> set pre. \<not> matches_filter filt x" "matches_filter filt d"
      "update_one filt sets xs = pre @ set_fields sets d # post" by blast
    with False show ?thesis
      by (intro exI [of _ "x # pre"] exI [of _ post]) simp
  qed
qed

lemma find_one_first:
  "(\<forall>x \<in> set pre. \<not> matches_filter filt x) \<Longrightarrow> matches_filter filt d \<Longrightarrow>
     find_one filt (pre @ d # post) = Some d"
  by (induction pre) auto

lemma map_of_set_fields2:
  "map_of (set_fields [(k1, v1), (k2, v2)] d) = (map_of d)(k1 \<mapsto> v1, k2 \<mapsto> v2)"
  by (simp add: set_fields_def update_conv')

lemma matches_id_set_fields:
  "k1 \<noteq> ''_id'' \<Longrightarrow> k2 \<noteq> ''_id'' \<Longrightarrow>
     matches_filter [(''_id'', v)] (set_fields [(k1, v1), (k2, v2)] d)
       = matches_filter [(''_id'', v)] d"
  by (simp add: matches_filter_def map_of_set_fields2)

lemma update_status_Some:
  "ObjectId (us_sponsor_id req) = Some oid \<Longrightarrow>
   update_status ObjectId now (Some d) req =
     Inr (d(''sponsor'' := update_one [(''_id'', VOid oid)]
            [(''status'', VStr (status_str (us_status req))), (''updated_at'', VDate now)]
            (d ''sponsor'')))"
  by (simp add: update_status_def)

lemma add_note_Some:
  "ObjectId (an_sponsor_id req) = Some oid \<Longrightarrow>
   add_note ObjectId now (Some d) req =
     Inr (d(''sponsor'' := update_one [(''_id'', VOid oid)]
            [(''notes'', VStr (an_note req)), (''updated_at'', VDate now)]
            (d ''sponsor'')))"
  by (simp add: add_note_def)

text \<open>
  C2, as stated, fails for a well-formed identifier that matches no sponsor: neither
  handler looks at the outcome of \<open>update_one\<close>, so both answer ok and leave the store as
  it was. No handler of the module raises a not-found error.
\<close>

theorem absent_sponsor_counterexample:
  "hex_oid acme_id = Some acme_id \<and>
   find_one [(''_id'', VOid acme_id)] (empty_db ''sponsor'') = None \<and>
   update_status hex_oid 1700000000 (Some empty_db)
     \<lparr>us_sponsor_id = acme_id, us_status = Confirmed\<rparr> = Inr empty_db \<and>
   add_note hex_oid 1700000000 (Some empty_db)
     \<lparr>an_sponsor_id = acme_id, an_note = ''send deck''\<rparr> = Inr empty_db"
  by (simp add: update_status_def add_note_def hex_oid_def is_hex_def lower_def lower_char_def
        acme_id_def empty_db_def fun_upd_idem_iff)

text \<open>
  C2 (amended): \<open>update_status\<close> and \<open>add_note\<close> fail with the invalid-identifier
  error (status 400) when the identifier is malformed; \<open>update_status\<close> fails with status
  500 when no store is configured. For a well-formed identifier that matches no sponsor
  both succeed and change nothing. When a sponsor matches, \<open>update_status\<close> succeeds and
  the sponsor found under the identifier afterwards has the requested status and the update
  timestamp.
\<close>

theorem status_and_note_identifier_checks:
  "update_status ObjectId now None sreq = Inl (HTTPException 500 ''Database not configured'') \<and>
   (ObjectId (us_sponsor_id sreq) = None \<longrightarrow>
      update_status ObjectId now (Some d) sreq = Inl (HTTPException 400 ''Invalid sponsor id'')) \<and>
   (ObjectId (an_sponsor_id nreq) = None \<longrightarrow>
      add_note ObjectId now db nreq = Inl (HTTPException 400 ''Invalid sponsor id'')) \<and>
   (ObjectId (us_sponsor_id sreq) = Some oid \<and>
    find_one [(''_id'', VOid oid)] (d ''sponsor'') = None \<longrightarrow>
      update_status ObjectId now (Some d) sreq = Inr d) \<and>
   (ObjectId (an_sponsor_id nreq) = Some oid \<and>
    find_one [(''_id'', VOid oid)] (d ''sponsor'') = None \<longrightarrow>
      add_note ObjectId now (Some d) nreq = Inr d) \<and>
   (ObjectId (us_sponsor_id sreq) = Some oid \<and>
    find_one [(''_id'', VOid oid)] (d ''sponsor'') = Some doc \<longrightarrow>
      (\<exists>d' doc'. update_status ObjectId now (Some d) sreq = Inr d' \<and>
         find_one [(''_id'', VOid oid)] (d' ''sponsor'') = Some doc' \<and>
         map_of doc' ''status'' = Some (VStr (status_str (us_status sreq))) \<and>
         map_of doc' ''updated_at'' = Some (VDate now)))"
proof (intro conjI impI)
  show "update_status ObjectId now None sreq = Inl (HTTPException 500 ''Database not configured'')"
    by (simp add: update_status_def)
  show "update_status ObjectId now (Some d) sreq = Inl (HTTPException 400 ''Invalid sponsor id'')"
    if "ObjectId (us_sponsor_id sreq) = None"
    using that by (simp add: update_status_def)
  show "add_note ObjectId now db nreq = Inl (HTTPException 400 ''Invalid sponsor id'')"
    if "ObjectId (an_sponsor_id nreq) = None"
    using that by (simp add: add_note_def)
  show "update_status ObjectId now (Some d) sreq = Inr d"
    if "ObjectId (us_sponsor_id sreq) = Some oid \<and>
        find_one [(''_id'', VOid oid)] (d ''sponsor'') = None"
    using that by (simp add: update_status_Some update_one_absent)
  show "add_note ObjectId now (Some d) nreq = Inr d"
    if "ObjectId (an_sponsor_id nreq) = Some oid \<and>
        find_one [(''_id'', VOid oid)] (d ''sponsor'') = None"
    using that by (simp add: add_note_Some update_one_absent)
  show "\<exists>d' doc'. update_status ObjectId now (Some d) sreq = Inr d' \<and>
         find_one [(''_id'', VOid oid)] (d' ''sponsor'') = Some doc' \<and>
         map_of doc' ''status'' = Some (VStr (status_str (us_status sreq))) \<and>
         map_of doc' ''updated_at'' = Some (VDate now)"
    if h: "ObjectId (us_sponsor_id sreq) = Some oid \<and>
        find_one [(''_id'', VOid oid)] (d ''sponsor'') = Some doc"
  proof -
    let ?sets = "[(''status'', VStr (status_str (us_status sreq))), (''updated_at'', VDate now)]"
    from h update_one_present [of "[(''_id'', VOid oid)]" "d ''sponsor''" doc ?sets]
    obtain pre post where
      pre: "\<forall>x \<in> set pre. \<not> matches_filter [(''_id'', VOid oid)] x"
      and m: "matches_filter [(''_id'', VOid oid)] doc"
      and u: "update_one [(''_id'', VOid oid)] ?sets (d ''sponsor'') = pre @ set_fields ?sets doc # post"
      by blast
    from m have m': "matches_filter [(''_id'', VOid oid)] (set_fields ?sets doc)"
      by (simp add: matches_id_set_fields)
    have "find_one [(''_id'', VOid oid)] (pre @ set_fields ?sets doc # post)
        = Some (set_fields ?sets doc)"
      by (rule find_one_first [OF pre m'])
    with h u show ?thesis
      by (intro exI [of _ "d(''sponsor'' := pre @ set_fields ?sets doc # post)"]
            exI [of _ "set_fields ?sets doc"])
         (simp add: update_status_Some map_of_set_fields2)
  qed
qed

text \<open>
  C9: \<open>add_note\<close> on an existing sponsor replaces the first document with that identifier,
  in place: its notes field is the supplied note, whatever it held before, its timestamp is
  the time of the call, and every other field is as it was. The other documents and the
  other collections are unchanged.
\<close>

theorem add_note_frame:
  "ObjectId (an_sponsor_id req) = Some oid \<and>
   find_one [(''_id'', VOid oid)] (d ''sponsor'') = Some doc \<longrightarrow>
     (\<exists>pre post doc'. d ''sponsor'' = pre @ doc # post \<and>
        (\<forall>x \<in> set pre. \<not> matches_filter [(''_id'', VOid oid)] x) \<and>
        add_note ObjectId now (Some d) req = Inr (d(''sponsor'' := pre @ doc' # post)) \<and>
        map_of doc' ''notes'' = Some (VStr (an_note req)) \<and>
        map_of doc' ''updated_at'' = Some (VDate now) \<and>
        (\<forall>k. k \<noteq> ''notes'' \<and> k \<noteq> ''updated_at'' \<longrightarrow> map_of doc' k = map_of doc k))"
proof
  assume h: "ObjectId (an_sponsor_id req) = Some oid \<and>
   find_one [(''_id'', VOid oid)] (d ''sponsor'') = Some doc"
  let ?sets = "[(''notes'', VStr (an_note req)), (''updated_at'', VDate now)]"
  from h update_one_present [of "[(''_id'', VOid oid)]" "d ''sponsor''" doc ?sets]
  obtain pre post where
    c: "d ''sponsor'' = pre @ doc # post"
    and pre: "\<forall>x \<in> set pre. \<not> matches_filter [(''_id'', VOid oid)] x"
    and u: "update_one [(''_id'', VOid oid)] ?sets (d ''sponsor'') = pre @ set_fields ?sets doc # post"
    by blast
  from h c pre u
  show "\<exists>pre post doc'. d ''sponsor'' = pre @ doc # post \<and>
        (\<forall>x \<in> set pre. \<not> matches_filter [(''_id'', VOid oid)] x) \<and>
        add_note ObjectId now (Some d) req = Inr (d(''sponsor'' := pre @ doc' # post)) \<and>
        map_of doc' ''notes'' = Some (VStr (an_note req)) \<and>
        map_of doc' ''updated_at'' = Some (VDate now) \<and>
        (\<forall>k. k \<noteq> ''notes'' \<and> k \<noteq> ''updated_at'' \<longrightarrow> map_of doc' k = map_of doc k)"
    by (intro exI [of _ pre] exI [of _ post] exI [of _ "set_fields ?sets doc"])
       (simp add: add_note_Some map_of_set_fields2)
qed

lemma hex_oid_samples:
  "hex_oid ''not-an-id'' = None"
  "hex_oid absent_id = Some absent_id"
  "hex_oid acme_id = Some acme_id"
  by (simp_all add: hex_oid_def is_hex_def lower_def lower_char_def acme_id_def absent_id_def)

lemma crm_db_lookups:
  "find_one [(''_id'', VOid absent_id)] (crm_db ''sponsor'') = None"
  "find_one [(''_id'', VOid acme_id)] (crm_db ''sponsor'') = Some acme_doc"
  by (simp_all add: crm_db_def brew_doc_def acme_doc_def matches_filter_def
        acme_id_def absent_id_def)

theorem status_and_note_identifier_checks_witness:
  "(hex_oid ''not-an-id'' = None \<and>
    update_status hex_oid 1700000000 (Some crm_db)
      \<lparr>us_sponsor_id = ''not-an-id'', us_status = Confirmed\<rparr>
      = Inl (HTTPException 400 ''Invalid sponsor id'') \<and>
    add_note hex_oid 1700000000 (Some crm_db)
      \<lparr>an_sponsor_id = ''not-an-id'', an_note = ''send deck''\<rparr>
      = Inl (HTTPException 400 ''Invalid sponsor id'')) \<and>
   (hex_oid absent_id = Some absent_id \<and>
    find_one [(''_id'', VOid absent_id)] (crm_db ''sponsor'') = None \<and>
    update_status hex_oid 1700000000 (Some crm_db)
      \<lparr>us_sponsor_id = absent_id, us_status = Confirmed\<rparr> = Inr crm_db \<and>
    add_note hex_oid 1700000000 (Some crm_db)
      \<lparr>an_sponsor_id = absent_id, an_note = ''send deck''\<rparr> = Inr crm_db) \<and>
   (hex_oid acme_id = Some acme_id \<and>
    find_one [(''_id'', VOid acme_id)] (crm_db ''sponsor'') = Some acme_doc \<and>
    (\<exists>d' doc'. update_status hex_oid 1700000000 (Some crm_db)
         \<lparr>us_sponsor_id = acme_id, us_status = Confirmed\<rparr> = Inr d' \<and>
       find_one [(''_id'', VOid acme_id)] (d' ''sponsor'') = Some doc' \<and>
       map_of doc' ''status'' = Some (VStr ''confirmed'') \<and>
       map_of doc' ''updated_at'' = Some (VDate 1700000000)))"
proof -
  note bad = status_and_note_identifier_checks
    [where ObjectId = hex_oid and now = 1700000000 and d = crm_db and db = "Some crm_db"
       and sreq = "\<lparr>us_sponsor_id = ''not-an-id'', us_status = Confirmed\<rparr>"
       and nreq = "\<lparr>an_sponsor_id = ''not-an-id'', an_note = ''send deck''\<rparr>"]
  note absent = status_and_note_identifier_checks
    [where ObjectId = hex_oid and now = 1700000000 and d = crm_db and db = "Some crm_db"
       and sreq = "\<lparr>us_sponsor_id = absent_id, us_status = Confirmed\<rparr>"
       and nreq = "\<lparr>an_sponsor_id = absent_id, an_note = ''send deck''\<rparr>"
       and oid = absent_id]
  note present = status_and_note_identifier_checks
    [where ObjectId = hex_oid and now = 1700000000 and d = crm_db and db = "Some crm_db"
       and sreq = "\<lparr>us_sponsor_id = acme_id, us_status = Confirmed\<rparr>"
       and oid = acme_id and doc = acme_doc]
  have 1: "update_status hex_oid 1700000000 (Some crm_db)
      \<lparr>us_sponsor_id = ''not-an-id'', us_status = Confirmed\<rparr>
      = Inl (HTTPException 400 ''Invalid sponsor id'')"
    using bad hex_oid_samples(1) by simp
  have 2: "add_note hex_oid 1700000000 (Some crm_db)
      \<lparr>an_sponsor_id = ''not-an-id'', an_note = ''send deck''\<rparr>
      = Inl (HTTPException 400 ''Invalid sponsor id'')"
    using bad hex_oid_samples(1) by simp
  have 3: "update_status hex_oid 1700000000 (Some crm_db)
      \<lparr>us_sponsor_id = absent_id, us_status = Confirmed\<rparr> = Inr crm_db"
    using absent hex_oid_samples(2) crm_db_lookups(1) by simp
  have 4: "add_note hex_oid 1700000000 (Some crm_db)
      \<lparr>an_sponsor_id = absent_id, an_note = ''send deck''\<rparr> = Inr crm_db"
    using absent hex_oid_samples(2) crm_db_lookups(1) by simp
  have 5: "\<exists>d' doc'. update_status hex_oid 1700000000 (Some crm_db)
         \<lparr>us_sponsor_id = acme_id, us_status = Confirmed\<rparr> = Inr d' \<and>
       find_one [(''_id'', VOid acme_id)] (d' ''sponsor'') = Some doc' \<and>
       map_of doc' ''status'' = Some (VStr ''confirmed'') \<and>
       map_of doc' ''updated_at'' = Some (VDate 1700000000)"
    using present hex_oid_samples(3) crm_db_lookups(2) by simp
  from 1 2 3 4 5 hex_oid_samples crm_db_lookups show ?thesis by blast
qed

theorem add_note_frame_witness:
  "hex_oid acme_id = Some acme_id \<and>
   find_one [(''_id'', VOid acme_id)] (crm_db ''sponsor'') = Some acme_doc \<and>
   add_note hex_oid 1700000000 (Some crm_db)
      \<lparr>an_sponsor_id = acme_id, an_note = ''send deck''\<rparr>
     = Inr (crm_db(''sponsor'' := [brew_doc,
         [(''_id'', VOid acme_id), (''name'', VStr ''Acme Tools''),
          (''industry'', VStr ''Retail''), (''location'', VStr ''Austin''), (''email'', VNull),
          (''phone'', VNull), (''website'', VNull), (''status'', VStr ''new''),
          (''proposal_id'', VNull), (''notes'', VStr ''send deck''),
          (''next_follow_up'', VNull), (''updated_at'', VDate 1700000000)]])) \<and>
   (\<exists>pre post doc'. crm_db ''sponsor'' = pre @ acme_doc # post \<and>
      (\<forall>x \<in> set pre. \<not> matches_filter [(''_id'', VOid acme_id)] x) \<and>
      add_note hex_oid 1700000000 (Some crm_db)
        \<lparr>an_sponsor_id = acme_id, an_note = ''send deck''\<rparr>
        = Inr (crm_db(''sponsor'' := pre @ doc' # post)) \<and>
      map_of doc' ''notes'' = Some (VStr ''send deck'') \<and>
      map_of doc' ''updated_at'' = Some (VDate 1700000000) \<and>
      (\<forall>k. k \<noteq> ''notes'' \<and> k \<noteq> ''updated_at'' \<longrightarrow> map_of doc' k = map_of acme_doc k))"
proof -
  have run: "add_note hex_oid 1700000000 (Some crm_db)
      \<lparr>an_sponsor_id = acme_id, an_note = ''send deck''\<rparr>
     = Inr (crm_db(''sponsor'' := [brew_doc,
         [(''_id'', VOid acme_id), (''name'', VStr ''Acme Tools''),
          (''industry'', VStr ''Retail''), (''location'', VStr ''Austin''), (''email'', VNull),
          (''phone'', VNull), (''website'', VNull), (''status'', VStr ''new''),
          (''proposal_id'', VNull), (''notes'', VStr ''send deck''),
          (''next_follow_up'', VNull), (''updated_at'', VDate 1700000000)]]))"
    by (simp add: add_note_def hex_oid_def is_hex_def lower_def lower_char_def crm_db_def
          brew_doc_def acme_doc_def matches_filter_def set_fields_def acme_id_def)
  from add_note_frame
    [where ObjectId = hex_oid and now = 1700000000 and d = crm_db and oid = acme_id
       and doc = acme_doc and req = "\<lparr>an_sponsor_id = acme_id, an_note = ''send deck''\<rparr>"]
    hex_oid_samples(3) crm_db_lookups(2)
  have "\<exists>pre post doc'. crm_db ''sponsor'' = pre @ acme_doc # post \<and>
      (\<forall>x \<in> set pre. \<not> matches_filter [(''_id'', VOid acme_id)] x) \<and>
      add_note hex_oid 1700000000 (Some crm_db)
        \<lparr>an_sponsor_id = acme_id, an_note = ''send deck''\<rparr>
        = Inr (crm_db(''sponsor'' := pre @ doc' # post)) \<and>
      map_of doc' ''notes'' = Some (VStr ''send deck'') \<and>
      map_of doc' ''updated_at'' = Some (VDate 1700000000) \<and>
      (\<forall>k. k \<noteq> ''notes'' \<and> k \<noteq> ''updated_at'' \<longrightarrow> map_of doc' k = map_of acme_doc k)"
    by simp
  with run hex_oid_samples(3) crm_db_lookups(2) show ?thesis by blast
qed

section \<open>Dashboard overview\<close>












section \<open>Outreach email\<close>


text \<open>A stored sponsor is addressed by its name.\<close>

lemma outreach_known_sponsor:
  "map_sum id subject (generate_outreach_email hex_oid (Some crm_db)
       \<lparr>ge_sponsor_id = acme_id, ge_proposal_id = None, tone = Professional\<rparr>)
     = Inr ''Sponsorship Opportunity: Acme Tools x Our Event''"
  by (simp add: generate_outreach_email_def Let_def get_if_def str_add_def dict_get_def
        lookup_sponsor_def hex_oid_def is_hex_def lower_def lower_char_def crm_db_def
        brew_doc_def acme_doc_def matches_filter_def acme_id_def)





end
